theory Spec2Isabelle
  imports Main "HOL-Library.Char_ord" "HOL-Library.List_Lexorder" "HOL-Library.Multiset"
begin

section \<open>Python values used by \<open>mproject\<close>\<close>

text \<open>
  A Python \<open>str\<close> is modelled by its UTF-8 bytes (\<^typ>\<open>string\<close>).  Every operation
  the module applies to strings (emptiness, \<open>startswith("/")\<close>, splitting at \<open>/\<close>,
  searching for \<open>.\<close>, comparison) gives the same answer on the bytes as on the
  code points.  Exceptions are values of \<open>error\<close>; a function that may raise returns
  \<open>error + 'a\<close> with \<open>Inl\<close> for the exception.
\<close>

datatype error =
    ValueError string
  | TypeError string
  | NameError string
  | UnboundLocalError string
  | CalledProcessError int "string list"

definition startswith :: "string \<Rightarrow> string \<Rightarrow> bool" where
  "startswith s p = (take (length p) s = p)"

fun str_contains :: "string \<Rightarrow> string \<Rightarrow> bool" where
  \<comment> \<open>Python's \<open>sub in s\<close> on strings\<close>
  "str_contains sub [] = (sub = [])"
| "str_contains sub (c # cs) = (startswith (c # cs) sub \<or> str_contains sub cs)"

fun join :: "string \<Rightarrow> string list \<Rightarrow> string" where
  \<comment> \<open>\<open>sep.join(xs)\<close>\<close>
  "join sep [] = []"
| "join sep [x] = x"
| "join sep (x # y # ys) = x @ sep @ join sep (y # ys)"

fun split_sep :: "char \<Rightarrow> string \<Rightarrow> string list" where
  \<comment> \<open>\<open>s.split(sep)\<close> for a one-character separator\<close>
  "split_sep sep [] = [[]]"
| "split_sep sep (c # cs) =
     (if c = sep then [] # split_sep sep cs
      else (case split_sep sep cs of
              [] \<Rightarrow> [[c]]
            | x # xs \<Rightarrow> (c # x) # xs))"

fun rfind_from :: "char \<Rightarrow> string \<Rightarrow> int \<Rightarrow> int \<Rightarrow> int" where
  "rfind_from c [] i found = found"
| "rfind_from c (x # xs) i found = rfind_from c xs (i + 1) (if x = c then i else found)"

definition rfind :: "string \<Rightarrow> char \<Rightarrow> int" where
  \<comment> \<open>\<open>s.rfind(c)\<close>: the highest index of \<open>c\<close>, or \<open>-1\<close>\<close>
  "rfind s c = rfind_from c s 0 (- 1)"

section \<open>\<open>pathlib\<close>: pure POSIX paths (CPython 3.11)\<close>

text \<open>
  A path object holds \<open>_root\<close> and \<open>_parts\<close>; when the root is not empty it is
  also the first element of \<open>_parts\<close>.  The drive is always empty on POSIX.
\<close>

record PosixPath =
  root :: string
  parts :: "string list"

definition sep :: char where
  "sep = CHR ''/''"

definition splitroot :: "string \<Rightarrow> string \<times> string" where
  \<comment> \<open>\<open>_PosixFlavour.splitroot\<close>, without the drive: (root, rest)\<close>
  "splitroot part =
     (if part \<noteq> [] \<and> hd part = sep then
        (let stripped_part = dropWhile (\<lambda>c. c = sep) part in
         if length part - length stripped_part = 2 then ([sep, sep], stripped_part)
         else ([sep], stripped_part))
      else ([], part))"

fun parse_loop :: "string list \<Rightarrow> string list \<Rightarrow> string \<times> string list" where
  \<comment> \<open>the \<open>for part in reversed(parts)\<close> loop of \<open>parse_parts\<close>; the first argument is
      the reversed list, \<open>parsed\<close> is the accumulator\<close>
  "parse_loop [] parsed = ([], parsed)"
| "parse_loop (part # it) parsed =
     (if part = [] then parse_loop it parsed
      else
        (let (rt, rel) = splitroot part;
             parsed' =
               (if sep \<in> set rel
                then parsed @ filter (\<lambda>x. x \<noteq> [] \<and> x \<noteq> ''.'') (rev (split_sep sep rel))
                else if rel \<noteq> [] \<and> rel \<noteq> ''.'' then parsed @ [rel] else parsed)
         in if rt \<noteq> [] then (rt, parsed') else parse_loop it parsed'))"

definition parse_parts :: "string list \<Rightarrow> PosixPath" where
  "parse_parts ps =
     (let (rt, parsed) = parse_loop (rev ps) [];
          parsed' = (if rt \<noteq> [] then parsed @ [rt] else parsed)
      in \<lparr>root = rt, parts = rev parsed'\<rparr>)"

definition Path :: "string \<Rightarrow> PosixPath" where
  \<comment> \<open>\<open>Path(s)\<close> for a string \<open>s\<close>\<close>
  "Path s = parse_parts [s]"

definition path_str :: "PosixPath \<Rightarrow> string" where
  \<comment> \<open>\<open>str(p)\<close>\<close>
  "path_str p =
     (let s = (if root p \<noteq> [] then root p @ join [sep] (tl (parts p))
               else join [sep] (parts p))
      in if s = [] then ''.'' else s)"

definition name :: "PosixPath \<Rightarrow> string" where
  "name p =
     (if length (parts p) = (if root p \<noteq> [] then 1 else 0) then []
      else last (parts p))"

definition suffix :: "PosixPath \<Rightarrow> string" where
  "suffix p =
     (let nm = name p; i = rfind nm (CHR ''.'')
      in if 0 < i \<and> i < int (length nm) - 1 then drop (nat i) nm else [])"

definition with_suffix :: "PosixPath \<Rightarrow> string \<Rightarrow> error + PosixPath" where
  "with_suffix p sfx =
     (if sep \<in> set sfx then Inl (ValueError ''Invalid suffix'')
      else if (sfx \<noteq> [] \<and> \<not> startswith sfx ''.'') \<or> sfx = ''.''
        then Inl (ValueError ''Invalid suffix'')
      else
        (let nm = name p in
         if nm = [] then Inl (ValueError ''has an empty name'')
         else
           (let old_suffix = suffix p;
                nm' = (if old_suffix = [] then nm @ sfx
                       else take (length nm - length old_suffix) nm @ sfx)
            in Inr (p\<lparr>parts := butlast (parts p) @ [nm']\<rparr>))))"

definition parent :: "PosixPath \<Rightarrow> PosixPath" where
  "parent p =
     (if length (parts p) = 1 \<and> root p \<noteq> [] then p
      else p\<lparr>parts := butlast (parts p)\<rparr>)"

definition is_absolute :: "PosixPath \<Rightarrow> bool" where
  "is_absolute p = (root p \<noteq> [])"

definition absolute :: "string \<Rightarrow> PosixPath \<Rightarrow> PosixPath" where
  \<comment> \<open>\<open>p.absolute()\<close>; the first argument is what \<open>os.getcwd()\<close> returns\<close>
  "absolute cwd p = (if is_absolute p then p else parse_parts (cwd # parts p))"

section \<open>\<open>OwnerRepo\<close>\<close>

record OwnerRepo =
  owner :: string
  repo :: string

definition OwnerRepo_post_init :: "OwnerRepo \<Rightarrow> error + unit" where
  "OwnerRepo_post_init self =
     (if owner self = [] \<or> repo self = []
      then Inl (ValueError (''Invalid GitHub URL: '' @ owner self @ ''/'' @ repo self))
      else Inr ())"

definition OwnerRepo_init :: "string \<Rightarrow> string \<Rightarrow> error + OwnerRepo" where
  \<comment> \<open>the dataclass constructor: store the fields, then run \<open>__post_init__\<close>\<close>
  "OwnerRepo_init ow rp =
     (let self = \<lparr>owner = ow, repo = rp\<rparr> in
      case OwnerRepo_post_init self of
        Inl e \<Rightarrow> Inl e
      | Inr _ \<Rightarrow> Inr self)"

definition from_path :: "PosixPath \<Rightarrow> error + OwnerRepo" where
  "from_path p = OwnerRepo_init (name (parent p)) (name p)"

section \<open>\<open>furl\<close>: the URL object returned by \<open>OwnerRepo.url\<close>\<close>

text \<open>
  \<open>furl\<close> is a third-party class.  The model keeps what the constructor call
  \<open>furl(scheme=..., host=..., path=[...], username=...)\<close> stores (no password, port,
  query or fragment is ever passed) and the rendering \<open>furl.tostr()\<close> of such an object
  through \<open>urllib.parse.urlunsplit\<close> and \<open>urllib.parse.quote\<close>.  It is meant for
  the five scheme literals of \<open>GitScheme\<close> and the host \<open>github.com\<close>, which furl
  stores unchanged.
\<close>

record furl =
  scheme :: "string option"
  username :: "string option"
  host :: "string option"
  segments :: "string list"
  path_isabsolute :: bool

definition ALWAYS_SAFE :: string where
  "ALWAYS_SAFE =
     ''ABCDEFGHIJKLMNOPQRSTUVWXYZabcdefghijklmnopqrstuvwxyz0123456789_.-~''"

definition SAFE_SEGMENT_CHARS :: string where
  "SAFE_SEGMENT_CHARS = [CHR '':'', CHR ''@'', CHR ''-'', CHR ''.'', CHR ''_'', CHR ''~'',
     CHR ''!'', CHR ''$'', CHR ''&'', CHR 0x27, CHR ''('', CHR '')'', CHR ''*'',
     CHR ''+'', CHR '','', CHR '';'', CHR ''='']"

definition hexdigit :: "nat \<Rightarrow> char" where
  "hexdigit d = ''0123456789ABCDEF'' ! (d mod 16)"

definition quote :: "string \<Rightarrow> string \<Rightarrow> string" where
  \<comment> \<open>\<open>urllib.parse.quote(s, safe)\<close> on the UTF-8 bytes of \<open>s\<close>\<close>
  "quote s safe =
     concat (map (\<lambda>b. if b \<in> set ALWAYS_SAFE \<or> b \<in> set safe then [b]
                        else [CHR ''%'', hexdigit (of_char b div 16), hexdigit (of_char b mod 16)])
                 s)"

definition uses_netloc :: "string list" where
  "uses_netloc = [[], ''ftp'', ''http'', ''gopher'', ''nntp'', ''telnet'',
     ''imap'', ''wais'', ''file'', ''mms'', ''https'', ''shttp'',
     ''snews'', ''prospero'', ''rtsp'', ''rtsps'', ''rtspu'', ''rsync'',
     ''svn'', ''svn+ssh'', ''sftp'', ''nfs'', ''git'', ''git+ssh'',
     ''ws'', ''wss'']"

definition urlunsplit :: "string \<Rightarrow> string option \<Rightarrow> string \<Rightarrow> string" where
  \<comment> \<open>\<open>urlunsplit((scheme, netloc, url, '', ''))\<close>\<close>
  "urlunsplit sch netloc u =
     (let nl = (case netloc of None \<Rightarrow> [] | Some n \<Rightarrow> n);
          u1 = (if nl \<noteq> [] \<or> (sch \<noteq> [] \<and> sch \<in> set uses_netloc) \<or> take 2 u = ''//''
                then ''//'' @ nl @ (if u \<noteq> [] \<and> take 1 u \<noteq> ''/'' then ''/'' @ u else u)
                else u)
      in if sch \<noteq> [] then sch @ '':'' @ u1 else u1)"

definition furl_netloc :: "furl \<Rightarrow> string option" where
  "furl_netloc f =
     (let userpass0 = quote (case username f of None \<Rightarrow> [] | Some u \<Rightarrow> u) [];
          userpass = (if userpass0 \<noteq> [] \<or> username f \<noteq> None then userpass0 @ ''@''
                      else userpass0);
          nl = host f
      in if userpass \<noteq> [] \<or> (nl \<noteq> None \<and> nl \<noteq> Some [])
         then Some (userpass @ (case nl of None \<Rightarrow> [] | Some h \<Rightarrow> h))
         else nl)"

definition furl_netloc_truthy :: "furl \<Rightarrow> bool" where
  "furl_netloc_truthy f = (furl_netloc f \<noteq> None \<and> furl_netloc f \<noteq> Some [])"

definition furl_init :: "string \<Rightarrow> string option \<Rightarrow> string option \<Rightarrow> string list \<Rightarrow> furl" where
  \<comment> \<open>\<open>furl(scheme=sch, username=un, host=h, path=segs)\<close>.  \<open>Path.load\<close> runs while the
      path is still empty, so nothing forces it absolute yet: the stored flag is set by an
      empty first segment alone, and that segment is dropped when others follow\<close>
  "furl_init sch un h segs =
     (let isabsolute = (segs \<noteq> [] \<and> hd segs = [])
      in \<lparr>scheme = Some sch, username = un, host = h,
          segments = (if isabsolute \<and> length segs > 1 then tl segs else segs),
          path_isabsolute = isabsolute\<rparr>)"

definition furl_path_str :: "furl \<Rightarrow> string" where
  \<comment> \<open>\<open>str(f.path)\<close>: the path is absolute when there are segments and a netloc, or
      when its stored flag says so; every segment is quoted\<close>
  "furl_path_str f =
     (let segs = segments f;
          isabsolute = ((segs \<noteq> [] \<and> furl_netloc_truthy f) \<or> path_isabsolute f);
          segs' = (if isabsolute then (if segs = [] then [[], []] else [] # segs) else segs)
      in join ''/'' (map (\<lambda>seg. quote seg SAFE_SEGMENT_CHARS) segs'))"

definition furl_tostr :: "furl \<Rightarrow> string" where
  \<comment> \<open>\<open>f.url\<close>, that is \<open>f.tostr()\<close>, for a furl with a non-empty scheme\<close>
  "furl_tostr f =
     urlunsplit (case scheme f of None \<Rightarrow> [] | Some s \<Rightarrow> s) (furl_netloc f) (furl_path_str f)"

section \<open>\<open>OwnerRepo.url\<close> and \<open>OwnerRepo.from_url\<close>\<close>

definition GITHUB_DOMAIN :: string where
  "GITHUB_DOMAIN = ''github.com''"

definition GitScheme :: "string list" where
  "GitScheme = [''git+file'', ''git+https'', ''git+ssh'', ''https'', ''ssh'']"

definition url :: "string \<Rightarrow> OwnerRepo \<Rightarrow> string \<Rightarrow> error + furl" where
  \<comment> \<open>\<open>self.url(scheme)\<close>; the first argument is the process's working directory, the
      only external state the body could read (through \<open>Path.absolute\<close>)\<close>
  "url cwd self sch =
     (if sch = ''git+file'' then
        (if \<not> startswith (repo self) ''/'' then
           Inl (ValueError (''Repo must be an absolute file for '' @ [CHR 0x27] @ sch
                            @ [CHR 0x27] @ '': '' @ repo self))
         else
           (case with_suffix (absolute cwd (Path (repo self))) ''.git'' of
              Inl e \<Rightarrow> Inl e
            | Inr p \<Rightarrow> Inr (furl_init sch None None [path_str p])))
      else if str_contains ''ssh'' sch then
        Inr (furl_init sch (Some ''git'') (Some GITHUB_DOMAIN) [owner self, repo self])
      else
        Inr (furl_init sch None (Some GITHUB_DOMAIN) [owner self, repo self]))"

definition from_url ::
  "(string \<Rightarrow> error + furl) \<Rightarrow> (furl \<Rightarrow> error + bool) \<Rightarrow> string \<Rightarrow> error + OwnerRepo" where
  \<comment> \<open>\<open>OwnerRepo.from_url(u)\<close> for a string \<open>u\<close>.  Two library operations are
      parameters: \<open>parse\<close> is the constructor \<open>furl(u)\<close> (it may raise on a malformed
      URL), \<open>contains_at\<close> is the evaluation of \<open>"@" in url\<close> on the furl object.  In
      the \<open>if\<close> branch only \<open>owner\<close> is bound, and \<open>repo\<close> is a name that no scope
      defines; in the \<open>else\<close> branch the local \<open>owner\<close> is read before any
      assignment.\<close>
  "from_url parse contains_at u =
     (case parse u of
        Inl e \<Rightarrow> Inl e
      | Inr f \<Rightarrow>
          (case contains_at f of
             Inl e \<Rightarrow> Inl e
           | Inr True \<Rightarrow> Inl (NameError ''name repo is not defined'')
           | Inr False \<Rightarrow> Inl (UnboundLocalError ''owner'')))"

section \<open>\<open>EnvBuilder\<close>\<close>















section \<open>\<open>ProjectPy\<close>\<close>

definition CORE_VENV_DEPS :: "string list" where
  "CORE_VENV_DEPS =
     [''build'', ''darling'', ''icecream'', ''ipython'', ''pip'', ''pip-tools'', ''pytest'',
      ''pytest-asyncio'', ''rich'', ''setuptools'', ''setuptools_scm'', ''tox'', ''wheel'']"

text \<open>
  The \<open>options\<close> table of a parsed \<open>setup.cfg\<close>: a key may be absent; \<open>extras_require\<close>
  maps the name of an extra to its dependency list.
\<close>

record setup_options =
  options_extras_require :: "(string \<times> string list) list option"
  options_install_requires :: "string list option"

record ProjectPy =
  python_exe_site :: "string option"
  python_exe_venv :: "string option"
  extras_require :: "string list"
  install_requires :: "string list"
  requirements :: "string list"

definition ProjectPy_post_init_options :: "ProjectPy \<Rightarrow> setup_options \<Rightarrow> ProjectPy" where
  \<comment> \<open>the assignments to \<open>extras_require\<close>, \<open>install_requires\<close> and \<open>requirements\<close> in
      \<open>ProjectPy.__post_init__\<close> (those to \<open>py_packages\<close> and \<open>python_requires\<close>, which
      the three do not read, are left out); \<open>sorted\<close> of a set comprehension is the
      sorted list of the distinct elements\<close>
  "ProjectPy_post_init_options self options =
     (let self1 = self\<lparr>extras_require :=
            sort (remdups (concat (map snd
              (case options_extras_require options of None \<Rightarrow> [] | Some d \<Rightarrow> d))))\<rparr>;
          self2 = self1\<lparr>install_requires :=
            (case options_install_requires options of None \<Rightarrow> [] | Some l \<Rightarrow> l)\<rparr>
      in self2\<lparr>requirements :=
            sort (install_requires self2 @ extras_require self2 @ CORE_VENV_DEPS)\<rparr>)"

definition pip_install_options :: "string list" where
  "pip_install_options = [''-m'', ''pip'', ''install'', ''--quiet'', ''--no-warn-script-location'']"

definition pip_upgrade_options :: "string list" where
  "pip_upgrade_options = pip_install_options @ [''--upgrade'']"

text \<open>
  \<open>subprocess.check_call\<close>: the external program is a parameter \<open>run\<close>, which maps the
  state of the machine and a command line to an exit status and a new state.  The second
  component of the process state lists the command lines spawned so far.
\<close>

definition check_call ::
  "('w \<Rightarrow> string list \<Rightarrow> int \<times> 'w) \<Rightarrow> 'w \<times> string list list \<Rightarrow> string option \<Rightarrow> string list
   \<Rightarrow> (error + unit) \<times> ('w \<times> string list list)" where
  "check_call run st executable argv =
     (case executable of
        None \<Rightarrow> (Inl (TypeError ''expected str, bytes or os.PathLike object, not NoneType''), st)
      | Some exe \<Rightarrow>
          (let cmd = exe # argv;
               (retcode, w') = run (fst st) cmd;
               st' = (w', snd st @ [cmd])
           in if retcode \<noteq> 0 then (Inl (CalledProcessError retcode cmd), st')
              else (Inr (), st')))"

definition pip_install ::
  "('w \<Rightarrow> string list \<Rightarrow> int \<times> 'w) \<Rightarrow> 'w \<times> string list list \<Rightarrow> ProjectPy \<Rightarrow> string list
   \<Rightarrow> bool \<Rightarrow> bool \<Rightarrow> (error + unit) \<times> ('w \<times> string list list)" where
  "pip_install run st self args site upg =
     (let executable = (if site then python_exe_site self else python_exe_venv self)
      in case check_call run st executable (pip_upgrade_options @ [''pip'', ''wheel'']) of
           (Inl e, st1) \<Rightarrow> (Inl e, st1)
         | (Inr _, st1) \<Rightarrow>
             check_call run st1 executable
               ((if upg then pip_upgrade_options else pip_install_options)
                @ (if args \<noteq> [] then args else requirements self)))"

definition ProjectPy_new :: ProjectPy where
  \<comment> \<open>the field defaults of the dataclass, before \<open>__post_init__\<close> has found anything\<close>
  "ProjectPy_new =
     \<lparr>python_exe_site = None, python_exe_venv = None, extras_require = [],
      install_requires = [], requirements = []\<rparr>"

section \<open>Facts about the path model\<close>

lemma startswith_slash: "startswith s ''/'' \<longleftrightarrow> (s \<noteq> [] \<and> hd s = sep)"
  by (cases s) (auto simp add: startswith_def sep_def)

lemma splitroot_rooted: "s \<noteq> [] \<Longrightarrow> hd s = sep \<Longrightarrow> fst (splitroot s) \<noteq> []"
  by (simp add: splitroot_def Let_def)

lemma root_Path: "startswith s ''/'' \<Longrightarrow> root (Path s) \<noteq> []"
  using splitroot_rooted [of s]
  by (auto simp add: startswith_slash Path_def parse_parts_def Let_def split: prod.splits if_splits)

text \<open>A path that starts with a slash is its own absolute form, whatever the working directory.\<close>

lemma absolute_Path: "startswith s ''/'' \<Longrightarrow> absolute cwd (Path s) = Path s"
  by (simp add: absolute_def is_absolute_def root_Path)


lemma split_sep_no_sep: "c \<notin> set s \<Longrightarrow> split_sep c s = [s]"
  by (induction s) auto

lemma split_sep_dropWhile:
  "Q [] \<Longrightarrow>
   (\<forall>x\<in>set (split_sep c (dropWhile (\<lambda>a. a = c) s)). Q x) \<longleftrightarrow> (\<forall>x\<in>set (split_sep c s). Q x)"
proof (induction s)
  case Nil
  then show ?case by simp
next
  case (Cons a s)
  then show ?case by (cases "a = c") simp_all
qed

lemma parse_loop_single:
  "s \<noteq> [] \<Longrightarrow> hd s = sep \<Longrightarrow>
   parse_loop [s] [] =
     (fst (splitroot s),
      filter (\<lambda>x. x \<noteq> [] \<and> x \<noteq> ''.'') (rev (split_sep sep (dropWhile (\<lambda>c. c = sep) s))))"
  by (auto simp add: splitroot_def Let_def split_sep_no_sep)

lemma parts_Path_rooted:
  assumes "s \<noteq> []" "hd s = sep"
  shows "parts (Path s) = fst (splitroot s) #
     rev (filter (\<lambda>x. x \<noteq> [] \<and> x \<noteq> ''.'')
            (rev (split_sep sep (dropWhile (\<lambda>c. c = sep) s))))"
  using splitroot_rooted [OF assms]
  by (simp add: Path_def parse_parts_def parse_loop_single [OF assms] del: parse_loop.simps)

text \<open>
  A rooted path has no final component exactly when nothing but empty and \<open>.\<close>
  components stand between its slashes, as in \<open>/\<close>, \<open>//\<close> or \<open>/./\<close>.
\<close>

lemma name_Path_empty_iff:
  assumes "startswith s ''/''"
  shows "name (Path s) = [] \<longleftrightarrow> (\<forall>x\<in>set (split_sep sep s). x = [] \<or> x = ''.'')"
proof -
  from assms have s: "s \<noteq> []" "hd s = sep" by (simp_all add: startswith_slash)
  let ?parsed = "filter (\<lambda>x. x \<noteq> [] \<and> x \<noteq> ''.'')
                   (rev (split_sep sep (dropWhile (\<lambda>c. c = sep) s)))"
  have parts: "parts (Path s) = fst (splitroot s) # rev ?parsed"
    using s by (rule parts_Path_rooted)
  have root: "root (Path s) \<noteq> []" using assms by (rule root_Path)
  have no_empty: "[] \<notin> set ?parsed" by simp
  have "name (Path s) = [] \<longleftrightarrow> ?parsed = []"
  proof (cases "?parsed = []")
    case True
    then show ?thesis using root parts by (simp add: name_def)
  next
    case False
    then have "last (parts (Path s)) = hd ?parsed"
      using parts by (simp add: last_rev)
    moreover have "hd ?parsed \<noteq> []" using False no_empty by (metis hd_in_set)
    ultimately show ?thesis using False root parts by (simp add: name_def)
  qed
  also have "\<dots> \<longleftrightarrow> (\<forall>x\<in>set (split_sep sep (dropWhile (\<lambda>c. c = sep) s)). x = [] \<or> x = ''.'')"
    by (auto simp add: filter_empty_conv)
  also have "\<dots> \<longleftrightarrow> (\<forall>x\<in>set (split_sep sep s). x = [] \<or> x = ''.'')"
    by (rule split_sep_dropWhile) simp
  finally show ?thesis .
qed



lemma path_str_nonempty: "path_str p \<noteq> []"
  by (simp add: path_str_def Let_def)

lemma Path_home_j5pu_mproject:
  "Path ''/home/j5pu/mproject''
     = \<lparr>root = ''/'', parts = [''/'', ''home'', ''j5pu'', ''mproject'']\<rparr>"
  by code_simp

lemma Path_mproject: "Path ''mproject'' = \<lparr>root = [], parts = [''mproject'']\<rparr>"
  by code_simp



section \<open>Facts about \<open>OwnerRepo.url\<close>\<close>

lemma with_suffix_git:
  "with_suffix p ''.git'' =
     (if name p = [] then Inl (ValueError ''has an empty name'')
      else Inr (p\<lparr>parts := butlast (parts p) @
             [(if suffix p = [] then name p
               else take (length (name p) - length (suffix p)) (name p)) @ ''.git'']\<rparr>))"
  by (simp add: with_suffix_def sep_def startswith_def Let_def)

lemma furl_init_file:
  "s \<noteq> [] \<Longrightarrow> furl_init sch None None [s]
     = \<lparr>scheme = Some sch, username = None, host = None, segments = [s],
        path_isabsolute = False\<rparr>"
  by (simp add: furl_init_def Let_def)

text \<open>The three outcomes of the \<open>git+file\<close> branch.\<close>

lemma url_git_file:
  "url cwd self ''git+file'' =
     (if \<not> startswith (repo self) ''/'' then
        Inl (ValueError (''Repo must be an absolute file for '' @ [CHR 0x27] @ ''git+file''
                            @ [CHR 0x27] @ '': '' @ repo self))
      else if name (Path (repo self)) = [] then Inl (ValueError ''has an empty name'')
      else Inr \<lparr>scheme = Some ''git+file'', username = None, host = None,
        segments = [path_str ((Path (repo self))\<lparr>parts := butlast (parts (Path (repo self))) @
             [(if suffix (Path (repo self)) = [] then name (Path (repo self))
               else take (length (name (Path (repo self))) - length (suffix (Path (repo self))))
                     (name (Path (repo self)))) @ ''.git'']\<rparr>)],
        path_isabsolute = False\<rparr>)"
  by (simp add: url_def absolute_Path with_suffix_git furl_init_file path_str_nonempty)

text \<open>
  Under the scheme \<open>ssh\<close> the URL of the furl is always of the \<open>ssh://\<close> form, with the
  two quoted segments and nothing after them.
\<close>

lemma quote_Nil: "quote [] safe = []"
  by (simp add: quote_def)

lemma quote_git: "quote ''git'' [] = ''git''"
  by (simp add: quote_def ALWAYS_SAFE_def)

lemma url_ssh_render:
  "owner self \<noteq> [] \<Longrightarrow>
   map_sum id furl_tostr (url cwd self ''ssh'')
     = Inr (''ssh://git@github.com/'' @ quote (owner self) SAFE_SEGMENT_CHARS @ ''/''
            @ quote (repo self) SAFE_SEGMENT_CHARS)"
  by (simp add: url_def startswith_def furl_init_def furl_netloc_truthy_def furl_netloc_def
      furl_tostr_def furl_path_str_def urlunsplit_def GITHUB_DOMAIN_def uses_netloc_def Let_def
      quote_Nil quote_git)

lemma url_other: "sch \<noteq> ''git+file'' \<Longrightarrow> \<exists>f. url cwd self sch = Inr f"
  by (simp add: url_def)

lemma url_cwd: "url cwd self sch = url cwd' self sch"
  by (simp add: url_def absolute_Path)

section \<open>The claims\<close>

text \<open>
  Claim C1: for non-empty owner and repo, \<open>url("ssh")\<close> is the host-colon form
  \<open>git@github.com:<owner>/<repo>.git\<close>, as the docstring of \<open>url\<close> also says.
  The body never reads the table \<open>GITHUB_URL\<close> and never appends \<open>.git\<close> outside the
  \<open>git+file\<close> branch: it builds \<open>furl(scheme="ssh", host="github.com",
  path=[owner, repo], username="git")\<close>.  At the docstring's own example the result is
  the URL \<open>ssh://git@github.com/cpython/cpython\<close>.
\<close>

theorem url_ssh_cpython:
  "map_sum id furl_tostr (url cwd \<lparr>owner = ''cpython'', repo = ''cpython''\<rparr> ''ssh'')
   = Inr ''ssh://git@github.com/cpython/cpython''"
  by (simp add: url_def startswith_def furl_init_def furl_netloc_truthy_def furl_netloc_def
      quote_def ALWAYS_SAFE_def SAFE_SEGMENT_CHARS_def furl_tostr_def furl_path_str_def
      urlunsplit_def GITHUB_DOMAIN_def uses_netloc_def)

text \<open>
  Claim C2: the combined \<open>requirements\<close> tuple has no duplicate entries and is sorted
  ascending.  It is sorted, but only \<open>extras_require\<close> goes through a set: the combined
  tuple is \<open>sorted(install_requires + extras_require + CORE_VENV_DEPS)\<close> and keeps every
  repetition.  A \<open>setup.cfg\<close> that lists \<open>pip\<close> under \<open>install_requires\<close> yields
  \<open>pip\<close> twice, since \<open>pip\<close> is also a core dependency.
\<close>

theorem requirements_duplicate_counterexample:
  "\<not> distinct (requirements (ProjectPy_post_init_options ProjectPy_new
        \<lparr>options_extras_require = None, options_install_requires = Some [''pip'']\<rparr>))"
  by (simp add: ProjectPy_post_init_options_def Let_def ProjectPy_new_def CORE_VENV_DEPS_def)

text \<open>
  Claim C2, amended: the combined tuple is sorted ascending and holds the entries of
  \<open>install_requires\<close>, of \<open>extras_require\<close> and of the core list with their
  multiplicities; \<open>extras_require\<close> alone is sorted and free of duplicates.  Hence the
  combined tuple is free of duplicates exactly when \<open>install_requires\<close> repeats no
  entry and the three lists are pairwise disjoint.
\<close>

theorem requirements_sorted_multiset:
  assumes "r = ProjectPy_post_init_options self options"
  shows "sorted (requirements r)
       \<and> mset (requirements r)
           = mset (install_requires r) + mset (extras_require r) + mset CORE_VENV_DEPS
       \<and> sorted (extras_require r)
       \<and> distinct (extras_require r)
       \<and> (distinct (requirements r)
            \<longleftrightarrow> distinct (install_requires r)
               \<and> set (install_requires r) \<inter> (set (extras_require r) \<union> set CORE_VENV_DEPS) = {}
               \<and> set (extras_require r) \<inter> set CORE_VENV_DEPS = {})"
proof -
  have core: "distinct CORE_VENV_DEPS" by (simp add: CORE_VENV_DEPS_def)
  show ?thesis
    using core assms by (auto simp add: ProjectPy_post_init_options_def Let_def)
qed

theorem requirements_sorted_multiset_witness:
  "sorted (requirements (ProjectPy_post_init_options ProjectPy_new
      \<lparr>options_extras_require = Some [(''dev'', [''tox'', ''black'']), (''test'', [''tox''])],
       options_install_requires = Some [''furl'', ''pip'']\<rparr>))
   \<and> mset (requirements (ProjectPy_post_init_options ProjectPy_new
      \<lparr>options_extras_require = Some [(''dev'', [''tox'', ''black'']), (''test'', [''tox''])],
       options_install_requires = Some [''furl'', ''pip'']\<rparr>))
     = mset [''furl'', ''pip''] + mset [''black'', ''tox''] + mset CORE_VENV_DEPS"
proof -
  have extras: "sort (remdups [''tox'', ''black'', ''tox'']) = [''black'', ''tox'']"
    by code_simp
  show ?thesis
    using requirements_sorted_multiset [OF refl, of ProjectPy_new
      "\<lparr>options_extras_require = Some [(''dev'', [''tox'', ''black'']), (''test'', [''tox''])],
        options_install_requires = Some [''furl'', ''pip'']\<rparr>"]
    by (simp add: ProjectPy_post_init_options_def Let_def extras)
qed

text \<open>
  Claim C3: for a GitHub remote URL string, \<open>from_url\<close> returns an \<open>OwnerRepo\<close>
  holding the owner and repository segments of the URL, as its docstring (``Parse a
  GitHub URL into owner and repo'') says.  The body binds \<open>owner\<close> in one branch only
  and never binds \<open>repo\<close>, so the final call \<open>cls(owner=owner, repo=repo)\<close> cannot be
  evaluated: whatever the URL parser and the membership test on the furl object do, no
  call of \<open>from_url\<close> returns a value.
\<close>

theorem from_url_never_returns:
  "from_url parse contains_at u \<noteq> Inr r"
  by (simp add: from_url_def split: sum.splits bool.splits)






text \<open>
  Claim C6: constructing an \<open>OwnerRepo\<close> raises \<open>ValueError\<close> exactly when the owner or
  the repo is empty; with both non-empty the construction succeeds and stores the two
  fields.
\<close>

theorem OwnerRepo_init_error_iff:
  "((\<exists>msg. OwnerRepo_init ow rp = Inl (ValueError msg)) \<longleftrightarrow> ow = [] \<or> rp = [])
   \<and> (ow \<noteq> [] \<and> rp \<noteq> [] \<longrightarrow> OwnerRepo_init ow rp = Inr \<lparr>owner = ow, repo = rp\<rparr>)"
  by (auto simp add: OwnerRepo_init_def OwnerRepo_post_init_def Let_def)

theorem OwnerRepo_init_error_iff_witness:
  "OwnerRepo_init ''j5pu'' ''mproject'' = Inr \<lparr>owner = ''j5pu'', repo = ''mproject''\<rparr>
   \<and> (\<exists>msg. OwnerRepo_init [] ''mproject'' = Inl (ValueError msg))
   \<and> (\<exists>msg. OwnerRepo_init ''j5pu'' [] = Inl (ValueError msg))"
  using OwnerRepo_init_error_iff [of "''j5pu''" "''mproject''"]
        OwnerRepo_init_error_iff [of "[]" "''mproject''"]
        OwnerRepo_init_error_iff [of "''j5pu''" "[]"]
  by simp

text \<open>
  Claim C7: \<open>url("git+file")\<close> raises \<open>ValueError\<close> exactly when the repo does not start
  with \<open>/\<close>, and the other schemes raise no such error.  The repo \<open>/\<close> starts with
  \<open>/\<close> and still raises: its path has no final component, and \<open>with_suffix\<close> refuses
  a path with an empty name.
\<close>

theorem url_git_file_root_counterexample:
  "startswith ''/'' ''/''
   \<and> url ''/'' \<lparr>owner = ''j5pu'', repo = ''/''\<rparr> ''git+file''
       = Inl (ValueError ''has an empty name'')"
  by code_simp

text \<open>
  Claim C7, amended: \<open>url("git+file")\<close> raises \<open>ValueError\<close> exactly when the repo does
  not start with \<open>/\<close> or has nothing but empty and \<open>.\<close> components between its
  slashes (as \<open>/\<close> has); under each of the other four schemes \<open>url\<close> returns a furl.
\<close>

theorem url_git_file_raises_iff:
  "((\<exists>msg. url cwd self ''git+file'' = Inl (ValueError msg))
      \<longleftrightarrow> (\<not> startswith (repo self) ''/''
           \<or> (\<forall>x\<in>set (split_sep sep (repo self)). x = [] \<or> x = ''.'')))
   \<and> (sch \<in> {''git+https'', ''git+ssh'', ''https'', ''ssh''} \<longrightarrow> (\<exists>f. url cwd self sch = Inr f))"
proof
  show "(\<exists>msg. url cwd self ''git+file'' = Inl (ValueError msg))
      \<longleftrightarrow> (\<not> startswith (repo self) ''/''
           \<or> (\<forall>x\<in>set (split_sep sep (repo self)). x = [] \<or> x = ''.''))"
  proof (cases "startswith (repo self) ''/''")
    case True
    then show ?thesis
      using name_Path_empty_iff [OF True] by (simp add: url_git_file)
  next
    case False
    then show ?thesis by (simp add: url_git_file)
  qed
  show "sch \<in> {''git+https'', ''git+ssh'', ''https'', ''ssh''} \<longrightarrow> (\<exists>f. url cwd self sch = Inr f)"
    by (auto intro: url_other)
qed

theorem url_git_file_raises_iff_witness:
  "(\<exists>msg. url ''/'' \<lparr>owner = ''j5pu'', repo = ''tmp/cpython''\<rparr> ''git+file'' = Inl (ValueError msg))
   \<and> (\<exists>msg. url ''/'' \<lparr>owner = ''j5pu'', repo = ''/./''\<rparr> ''git+file'' = Inl (ValueError msg))
   \<and> \<not> (\<exists>msg. url ''/'' \<lparr>owner = ''j5pu'', repo = ''/tmp/cpython''\<rparr> ''git+file''
                = Inl (ValueError msg))
   \<and> (\<exists>f. url ''/'' \<lparr>owner = ''j5pu'', repo = ''mproject''\<rparr> ''ssh'' = Inr f)"
  using url_git_file_raises_iff [of "''/''" "\<lparr>owner = ''j5pu'', repo = ''tmp/cpython''\<rparr>" "''ssh''"]
        url_git_file_raises_iff [of "''/''" "\<lparr>owner = ''j5pu'', repo = ''/./''\<rparr>" "''ssh''"]
        url_git_file_raises_iff [of "''/''" "\<lparr>owner = ''j5pu'', repo = ''/tmp/cpython''\<rparr>" "''ssh''"]
        url_git_file_raises_iff [of "''/''" "\<lparr>owner = ''j5pu'', repo = ''mproject''\<rparr>" "''ssh''"]
  by (simp add: startswith_def sep_def)

text \<open>
  Claim C8: URL derivation is deterministic.  \<open>url\<close> is a function of the owner, the repo
  and the scheme alone: the only external state its body could reach is the working
  directory, through \<open>Path.absolute\<close>, and for each of the five schemes the result is
  the same whatever the working directory is.
\<close>

theorem url_independent_of_cwd:
  "sch \<in> set GitScheme \<Longrightarrow> url cwd self sch = url cwd' self sch"
  by (rule url_cwd)

theorem url_independent_of_cwd_witness:
  "''git+file'' \<in> set GitScheme
   \<and> url ''/home/a'' \<lparr>owner = ''j5pu'', repo = ''/tmp/cpython''\<rparr> ''git+file''
     = url ''/srv/b'' \<lparr>owner = ''j5pu'', repo = ''/tmp/cpython''\<rparr> ''git+file''"
proof -
  have h: "''git+file'' \<in> set GitScheme" by (simp add: GitScheme_def)
  show ?thesis
    using h url_independent_of_cwd [OF h, of "''/home/a''"
        "\<lparr>owner = ''j5pu'', repo = ''/tmp/cpython''\<rparr>" "''/srv/b''"]
    by simp
qed

text \<open>
  Claim C9: \<open>pip_install\<close> spawns the installer with \<open>check_call\<close>, first to upgrade
  \<open>pip\<close> and \<open>wheel\<close>, then to install the packages.  A non-zero exit status of the
  first command is raised as \<open>CalledProcessError\<close> at once and the second command is
  never spawned; a non-zero status of the second is raised in the same way; no command is
  spawned twice.  When both commands exit with status zero, \<open>pip_install\<close> returns
  normally.
\<close>

theorem pip_install_propagates:
  assumes "(if site then python_exe_site self else python_exe_venv self) = Some exe"
    and "cmd1 = exe # pip_upgrade_options @ [''pip'', ''wheel'']"
    and "cmd2 = exe # (if upg then pip_upgrade_options else pip_install_options)
                  @ (if args \<noteq> [] then args else requirements self)"
    and "run w cmd1 = (rc1, w1)" and "run w1 cmd2 = (rc2, w2)"
  shows "(rc1 \<noteq> 0 \<longrightarrow> pip_install run (w, sp) self args site upg
            = (Inl (CalledProcessError rc1 cmd1), (w1, sp @ [cmd1])))
       \<and> (rc1 = 0 \<and> rc2 \<noteq> 0 \<longrightarrow> pip_install run (w, sp) self args site upg
            = (Inl (CalledProcessError rc2 cmd2), (w2, sp @ [cmd1, cmd2])))
       \<and> (rc1 = 0 \<and> rc2 = 0 \<longrightarrow> pip_install run (w, sp) self args site upg
            = (Inr (), (w2, sp @ [cmd1, cmd2])))"
  using assms
  by (auto simp add: pip_install_def check_call_def Let_def split: if_splits)

theorem pip_install_propagates_witness:
  "pip_install (\<lambda>w cmd. (1, Suc w)) (0::nat, [])
       (ProjectPy_new\<lparr>python_exe_venv := Some ''/p/venv/bin/python''\<rparr>) [''furl''] False False
     = (Inl (CalledProcessError 1
              (''/p/venv/bin/python'' # pip_upgrade_options @ [''pip'', ''wheel''])),
        (1, [''/p/venv/bin/python'' # pip_upgrade_options @ [''pip'', ''wheel'']]))
   \<and> pip_install (\<lambda>w cmd. (0, Suc w)) (0::nat, [])
       (ProjectPy_new\<lparr>python_exe_venv := Some ''/p/venv/bin/python''\<rparr>) [''furl''] False False
     = (Inr (),
        (2, [''/p/venv/bin/python'' # pip_upgrade_options @ [''pip'', ''wheel''],
             ''/p/venv/bin/python'' # pip_install_options @ [''furl'']]))"
proof -
  let ?self = "ProjectPy_new\<lparr>python_exe_venv := Some ''/p/venv/bin/python''\<rparr>"
  have exe: "(if False then python_exe_site ?self else python_exe_venv ?self)
               = Some ''/p/venv/bin/python''"
    by simp
  have args: "''/p/venv/bin/python'' # pip_install_options @ [''furl'']
      = ''/p/venv/bin/python'' # (if False then pip_upgrade_options else pip_install_options)
          @ (if [''furl''] \<noteq> [] then [''furl''] else requirements ?self)"
    by simp
  show ?thesis
    using pip_install_propagates [OF exe refl args, of "\<lambda>w cmd. (1, Suc w)" 0 1 1 1 2 "[]"]
          pip_install_propagates [OF exe refl args, of "\<lambda>w cmd. (0, Suc w)" 0 0 1 0 2 "[]"]
    by simp
qed

text \<open>
  Claim C10: when the final component of a path and the final component of its parent are
  both non-empty, \<open>from_path\<close> returns the \<open>OwnerRepo\<close> whose owner is the parent's name
  and whose repo is the path's name; when either is empty (a single-component path, the
  root) the construction raises \<open>ValueError\<close>.
\<close>

theorem from_path_owner_repo:
  "(name p \<noteq> [] \<and> name (parent p) \<noteq> []
      \<longrightarrow> from_path p = Inr \<lparr>owner = name (parent p), repo = name p\<rparr>)
   \<and> (name p = [] \<or> name (parent p) = [] \<longrightarrow> (\<exists>msg. from_path p = Inl (ValueError msg)))"
  by (auto simp add: from_path_def OwnerRepo_init_def OwnerRepo_post_init_def)

theorem from_path_owner_repo_witness:
  "from_path (Path ''/home/j5pu/mproject'') = Inr \<lparr>owner = ''j5pu'', repo = ''mproject''\<rparr>
   \<and> (\<exists>msg. from_path (Path ''mproject'') = Inl (ValueError msg))"
  using from_path_owner_repo [of "Path ''/home/j5pu/mproject''"]
        from_path_owner_repo [of "Path ''mproject''"]
  by (simp add: Path_home_j5pu_mproject Path_mproject name_def parent_def)

end
